theory Spec2Isabelle
  imports Main
begin

section \<open>JavaScript values used by the handlers\<close>

text \<open>
  A JavaScript number, as far as the handlers use it: \<open>NaN\<close> or an integer.
  Rounding of integers beyond \<open>2^53\<close> and the infinities are not modelled.
\<close>

datatype jsnum = NaN | Num int

text \<open>\<^verbatim>\<open>Math.max(a, b)\<close> and \<^verbatim>\<open>Math.min(a, b)\<close>: \<open>NaN\<close> if either argument is \<open>NaN\<close>.\<close>

fun Math_max :: "jsnum \<Rightarrow> jsnum \<Rightarrow> jsnum" where
  "Math_max (Num a) (Num b) = Num (max a b)"
| "Math_max _ _ = NaN"

fun Math_min :: "jsnum \<Rightarrow> jsnum \<Rightarrow> jsnum" where
  "Math_min (Num a) (Num b) = Num (min a b)"
| "Math_min _ _ = NaN"

fun js_minus :: "jsnum \<Rightarrow> jsnum \<Rightarrow> jsnum" where
  "js_minus (Num a) (Num b) = Num (a - b)"
| "js_minus _ _ = NaN"

fun js_times :: "jsnum \<Rightarrow> jsnum \<Rightarrow> jsnum" where
  "js_times (Num a) (Num b) = Num (a * b)"
| "js_times _ _ = NaN"

text \<open>\<^verbatim>\<open>a >= b\<close> and \<^verbatim>\<open>a <= b\<close> on numbers: false as soon as one side is \<open>NaN\<close>.\<close>

fun js_ge :: "jsnum \<Rightarrow> jsnum \<Rightarrow> bool" where
  "js_ge (Num a) (Num b) = (b \<le> a)"
| "js_ge _ _ = False"

fun js_le :: "jsnum \<Rightarrow> jsnum \<Rightarrow> bool" where
  "js_le (Num a) (Num b) = (a \<le> b)"
| "js_le _ _ = False"

text \<open>
  \<^verbatim>\<open>parseInt(s, 10)\<close>: leading white space is skipped, one sign is read, then the
  longest run of decimal digits; with no digit the result is \<open>NaN\<close>.
\<close>

definition is_space :: "char \<Rightarrow> bool" where
  "is_space c = (of_char c \<in> {9, 10, 11, 12, 13, 32 :: nat})"

definition is_digit :: "char \<Rightarrow> bool" where
  "is_digit c = (48 \<le> (of_char c :: nat) \<and> (of_char c :: nat) \<le> 57)"

definition digit_value :: "char \<Rightarrow> int" where
  "digit_value c = int (of_char c) - 48"

definition digits_value :: "string \<Rightarrow> int" where
  "digits_value ds = foldl (\<lambda>a c. 10 * a + digit_value c) 0 ds"

definition parseInt :: "string \<Rightarrow> jsnum" where
  "parseInt s =
     (let t = dropWhile is_space s;
          neg = (case t of [] \<Rightarrow> False | c # _ \<Rightarrow> c = CHR ''-'');
          r = (case t of [] \<Rightarrow> [] | c # cs \<Rightarrow> if c = CHR ''-'' \<or> c = CHR ''+'' then cs else t);
          ds = takeWhile is_digit r
      in if ds = [] then NaN
         else Num ((if neg then - 1 else 1) * digits_value ds))"

text \<open>
  \<^verbatim>\<open>x || d\<close> for a query-string parameter \<open>x\<close>: a missing parameter (\<open>undefined\<close>) and
  the empty string are falsy, every other string is kept.
\<close>

definition or_default :: "string option \<Rightarrow> string \<Rightarrow> string" where
  "or_default x d = (case x of None \<Rightarrow> d | Some v \<Rightarrow> if v = [] then d else v)"

section \<open>Query-string parameters\<close>

record query_params =
  page_param :: "string option"
  limit_param :: "string option"

section \<open>Entities (DynamoDB items)\<close>

text \<open>
  Only the attributes that \<open>borrowBook\<close> and \<open>returnBook\<close> read or write are kept.
  Time stamps are the millisecond values of the JavaScript \<open>Date\<close> objects (the ISO
  strings the code stores are an injective rendering of them).
\<close>

datatype borrowing_status = Active | Returned | Overdue

record book =
  book_id :: string
  title :: string
  totalCopies :: int
  availableCopies :: int
  book_updatedAt :: int

record user =
  user_id :: string
  borrowingLimit :: int
  currentBorrowedCount :: int
  user_updatedAt :: int

record borrowing =
  brw_id :: string
  userId :: string
  bookId :: string
  bookTitle :: string
  borrowedAt :: int
  dueDate :: int
  status :: borrowing_status
  createdAt :: int
  returnedAt :: "int option"
  brw_updatedAt :: "int option"

text \<open>The three tables; each list is in the order a scan or index query returns the items.\<close>

record store =
  BOOKS_TABLE :: "book list"
  USERS_TABLE :: "user list"
  BORROWING_TABLE :: "borrowing list"

section \<open>The entity store\<close>

text \<open>
  Modelled from the spec: the DynamoDB document client (\<open>get\<close>, \<open>query\<close>,
  \<open>transactWrite\<close>) is a library outside the repository; it is the Entity Store of
  section 4.1 of the specification. \<open>get\<close> is a point read by primary key.
\<close>

definition get_item :: "('a \<Rightarrow> string) \<Rightarrow> 'a list \<Rightarrow> string \<Rightarrow> 'a option" where
  "get_item key tbl k = find (\<lambda>x. key x = k) tbl"

text \<open>
  Modelled from the spec: \<open>Put\<close> replaces the item with the same primary key, or adds
  the item (here: at the end of the table).
\<close>

definition put_item :: "('a \<Rightarrow> string) \<Rightarrow> 'a \<Rightarrow> 'a list \<Rightarrow> 'a list" where
  "put_item key x tbl =
     (if list_ex (\<lambda>y. key y = key x) tbl
      then map (\<lambda>y. if key y = key x then x else y) tbl
      else tbl @ [x])"

text \<open>
  Modelled from the spec: a conditional \<open>Update\<close> of the item with key \<open>k\<close>. It fails
  when the condition is false of the stored item. It also fails when there is no such
  item: the update expressions of the handlers read the attribute they set
  (\<^verbatim>\<open>availableCopies = availableCopies + :inc\<close>), which a missing item does not have.
  (For the borrowing record, whose update expression reads nothing, DynamoDB would
  create an item; no operation of the handlers removes a record, so the key found by
  the query is still there at the write.)
\<close>

definition update_item ::
  "('a \<Rightarrow> string) \<Rightarrow> string \<Rightarrow> ('a \<Rightarrow> bool) \<Rightarrow> ('a \<Rightarrow> 'a) \<Rightarrow> 'a list \<Rightarrow> 'a list option" where
  "update_item key k cond upd tbl =
     (case get_item key tbl k of
        None \<Rightarrow> None
      | Some x \<Rightarrow>
          if cond x then Some (map (\<lambda>y. if key y = k then upd y else y) tbl) else None)"

text \<open>
  The items of a \<open>transactWrite\<close>: the table, the key, the \<open>ConditionExpression\<close> (a
  predicate on the stored item) and the \<open>UpdateExpression\<close> (a function on it).
\<close>

datatype write_op =
    Put_BORROWING borrowing
  | Update_BORROWING string "borrowing \<Rightarrow> bool" "borrowing \<Rightarrow> borrowing"
  | Update_BOOKS string "book \<Rightarrow> bool" "book \<Rightarrow> book"
  | Update_USERS string "user \<Rightarrow> bool" "user \<Rightarrow> user"

fun apply_write :: "write_op \<Rightarrow> store \<Rightarrow> store option" where
  "apply_write (Put_BORROWING r) s =
     Some (s\<lparr>BORROWING_TABLE := put_item brw_id r (BORROWING_TABLE s)\<rparr>)"
| "apply_write (Update_BORROWING k c u) s =
     (case update_item brw_id k c u (BORROWING_TABLE s) of
        None \<Rightarrow> None | Some t \<Rightarrow> Some (s\<lparr>BORROWING_TABLE := t\<rparr>))"
| "apply_write (Update_BOOKS k c u) s =
     (case update_item book_id k c u (BOOKS_TABLE s) of
        None \<Rightarrow> None | Some t \<Rightarrow> Some (s\<lparr>BOOKS_TABLE := t\<rparr>))"
| "apply_write (Update_USERS k c u) s =
     (case update_item user_id k c u (USERS_TABLE s) of
        None \<Rightarrow> None | Some t \<Rightarrow> Some (s\<lparr>USERS_TABLE := t\<rparr>))"

text \<open>
  Modelled from the spec: \<open>transactWrite\<close> applies all its items or none. \<open>None\<close> is
  the \<open>TransactionCanceledException\<close>; the store is then the one before the call.
  (The items of the handlers address three different tables, so applying them one
  after the other is applying them at once.) A failure of the service itself, which
  the handlers answer with 500, is not modelled.
\<close>

fun transactWrite :: "write_op list \<Rightarrow> store \<Rightarrow> store option" where
  "transactWrite [] s = Some s"
| "transactWrite (w # ws) s =
     (case apply_write w s of None \<Rightarrow> None | Some s' \<Rightarrow> transactWrite ws s')"

text \<open>
  Modelled from the spec: the query on \<open>UserIndex\<close> (partition key \<open>userId\<close>, sort key
  \<open>status\<close>) with a filter expression, in index order. The index is taken to be up to
  date with the table.
\<close>

definition query_UserIndex ::
  "string \<Rightarrow> borrowing_status \<Rightarrow> (borrowing \<Rightarrow> bool) \<Rightarrow> store \<Rightarrow> borrowing list" where
  "query_UserIndex uid st flt s =
     filter (\<lambda>r. userId r = uid \<and> status r = st \<and> flt r) (BORROWING_TABLE s)"

section \<open>Requests and responses (common/response.js)\<close>

record request_body =
  req_userId :: "string option"
  req_durationDays :: "int option"

text \<open>
  The event of a request: \<open>api_key\<close> is \<^verbatim>\<open>headers['X-API-Key'] || headers['x-api-key']\<close>,
  \<open>path_bookId\<close> is \<^verbatim>\<open>pathParameters.bookId\<close>, \<open>body\<close> is \<^verbatim>\<open>JSON.parse(event.body)\<close>
  (a JSON object; \<open>None\<close> when \<open>JSON.parse\<close> throws).
\<close>

record event =
  api_key :: "string option"
  path_bookId :: "string option"
  body :: "request_body option"
  queryStringParameters :: "query_params option"

record borrowing_view =
  view_id :: string
  view_userId :: string
  view_bookId :: string
  view_borrowedAt :: int
  view_dueDate :: int
  view_returnedAt :: "int option"
  view_status :: borrowing_status

datatype response_body =
    Error_body string string "(string \<times> string) option"
  | Borrowing_body borrowing_view

text \<open>The response without its headers; an error body without its time stamp.\<close>

record response =
  statusCode :: int
  resp_body :: response_body

definition createResponse :: "int \<Rightarrow> response_body \<Rightarrow> response" where
  "createResponse sc b = \<lparr>statusCode = sc, resp_body = b\<rparr>"

definition createErrorResponse ::
  "int \<Rightarrow> string \<Rightarrow> string \<Rightarrow> (string \<times> string) option \<Rightarrow> response" where
  "createErrorResponse sc errorCode message details =
     createResponse sc (Error_body errorCode message details)"

text \<open>
  \<open>generateId(prefix)\<close>; \<open>hex\<close> is the hexadecimal rendering of
  \<^verbatim>\<open>crypto.randomBytes(3)\<close>, an input of the model.
\<close>

definition generateId :: "string \<Rightarrow> string \<Rightarrow> string" where
  "generateId prefix hex = prefix @ ''_'' @ hex"

text \<open>
  \<open>validateApiKey\<close>: \<open>Some e\<close> for \<^verbatim>\<open>{isValid: false, error: e}\<close>, \<open>None\<close> for
  \<^verbatim>\<open>{isValid: true}\<close>. The first argument is \<^verbatim>\<open>process.env.API_KEY_VALUE\<close>.
\<close>

definition validateApiKey :: "string option \<Rightarrow> event \<Rightarrow> response option" where
  "validateApiKey API_KEY_VALUE ev =
     (case api_key ev of
        None \<Rightarrow> Some (createErrorResponse 401 ''UNAUTHORIZED'' ''Missing or invalid API key'' None)
      | Some apiKey \<Rightarrow>
          if apiKey = [] then
            Some (createErrorResponse 401 ''UNAUTHORIZED'' ''Missing or invalid API key'' None)
          else if apiKey \<noteq> or_default API_KEY_VALUE ''test-api-key'' then
            Some (createErrorResponse 401 ''UNAUTHORIZED'' ''Missing or invalid API key'' None)
          else None)"

section \<open>Pagination (common/response.js)\<close>

record pagination =
  page :: jsnum
  limit :: jsnum
  offset :: jsnum

text \<open>
  \<open>parsePaginationParams\<close>. \<^verbatim>\<open>event.queryStringParameters\<close> is \<open>None\<close> for a request
  without query string (\<^verbatim>\<open>?.\<close> then yields \<open>undefined\<close>).
\<close>

definition parsePaginationParams :: "event \<Rightarrow> pagination" where
  "parsePaginationParams ev =
     (let page = parseInt (or_default (Option.bind (queryStringParameters ev) page_param) ''1'');
          limit = parseInt (or_default (Option.bind (queryStringParameters ev) limit_param) ''20'');
          validPage = Math_max (Num 1) page;
          validLimit = Math_max (Num 1) (Math_min (Num 100) limit)
      in \<lparr>page = validPage, limit = validLimit,
          offset = js_times (js_minus validPage (Num 1)) validLimit\<rparr>)"

section \<open>Identifier formats (handlers/books.js)\<close>

definition is_alnum :: "char \<Rightarrow> bool" where
  "is_alnum c =
     (let n = (of_char c :: nat)
      in (48 \<le> n \<and> n \<le> 57) \<or> (65 \<le> n \<and> n \<le> 90) \<or> (97 \<le> n \<and> n \<le> 122))"

text \<open>\<^verbatim>\<open>s.match(/^prefix[a-zA-Z0-9]{6}$/)\<close> for a literal prefix.\<close>

definition matches_id :: "string \<Rightarrow> string \<Rightarrow> bool" where
  "matches_id prefix s =
     (length s = length prefix + 6 \<and> take (length prefix) s = prefix
      \<and> list_all is_alnum (drop (length prefix) s))"

section \<open>The borrow handler (handlers/books.js)\<close>

definition bad_request :: "string \<Rightarrow> string \<Rightarrow> response" where
  "bad_request field reason =
     createErrorResponse 400 ''BAD_REQUEST'' ''Invalid request parameters'' (Some (field, reason))"

definition internal_server_error :: response where
  "internal_server_error =
     createErrorResponse 500 ''INTERNAL_SERVER_ERROR'' ''An unexpected error occurred'' None"

definition not_found :: response where
  "not_found = createErrorResponse 404 ''NOT_FOUND'' ''The requested resource was not found'' None"

definition conflict :: "string \<Rightarrow> response" where
  "conflict message = createErrorResponse 409 ''CONFLICT'' message None"

text \<open>\<^verbatim>\<open>body.durationDays || 14\<close>: a missing field and the number 0 are falsy.\<close>

definition duration_or_default :: "int option \<Rightarrow> int" where
  "duration_or_default d = (case d of None \<Rightarrow> 14 | Some n \<Rightarrow> if n = 0 then 14 else n)"

text \<open>
  The part of \<open>borrowBook\<close> before the first read: the API key, \<open>JSON.parse\<close> (an
  exception is answered 500), the two identifier formats, the duration. The result is
  the response of an early return, or the book id, the user id and \<open>durationDays\<close>.
\<close>

definition borrow_validate :: "string option \<Rightarrow> event \<Rightarrow> response + (string \<times> string \<times> int)" where
  "borrow_validate API_KEY_VALUE ev =
     (case validateApiKey API_KEY_VALUE ev of
        Some err \<Rightarrow> Inl err
      | None \<Rightarrow>
         (case body ev of
            None \<Rightarrow> Inl internal_server_error
          | Some b \<Rightarrow>
             (case path_bookId ev of
                None \<Rightarrow> Inl (bad_request ''bookId'' ''Invalid book ID format'')
              | Some bid \<Rightarrow>
                 if bid = [] \<or> \<not> matches_id ''bk_'' bid
                 then Inl (bad_request ''bookId'' ''Invalid book ID format'')
                 else
                  (case req_userId b of
                     None \<Rightarrow> Inl (bad_request ''userId'' ''Invalid user ID format'')
                   | Some uid \<Rightarrow>
                      if uid = [] \<or> \<not> matches_id ''usr_'' uid
                      then Inl (bad_request ''userId'' ''Invalid user ID format'')
                      else Inr (bid, uid, duration_or_default (req_durationDays b))))))"

definition ms_per_day :: int where
  "ms_per_day = 86400000"

text \<open>
  \<^verbatim>\<open>d.setDate(d.getDate() + n)\<close> on the millisecond value \<open>t\<close> of \<open>d\<close>, for an integer
  \<open>n\<close> and a local time zone without clock changes (the Lambda runtime is in UTC).
\<close>

definition setDate_plus :: "int \<Rightarrow> int \<Rightarrow> int" where
  "setDate_plus t n = t + n * ms_per_day"

definition new_borrowingRecord :: "string \<Rightarrow> string \<Rightarrow> int \<Rightarrow> book \<Rightarrow> int \<Rightarrow> string \<Rightarrow> borrowing" where
  "new_borrowingRecord bid uid durationDays bk timestamp hex =
     \<lparr>brw_id = generateId ''brw'' hex, userId = uid, bookId = bid, bookTitle = title bk,
      borrowedAt = timestamp, dueDate = setDate_plus timestamp durationDays,
      status = Active, createdAt = timestamp, returnedAt = None, brw_updatedAt = None\<rparr>"

text \<open>The \<open>TransactItems\<close> of \<open>borrowBook\<close>.\<close>

definition borrow_items :: "borrowing \<Rightarrow> string \<Rightarrow> string \<Rightarrow> int \<Rightarrow> write_op list" where
  "borrow_items borrowingRecord bid uid timestamp =
     [Put_BORROWING borrowingRecord,
      Update_BOOKS bid (\<lambda>b. availableCopies b > 0)
        (\<lambda>b. b\<lparr>availableCopies := availableCopies b - 1, book_updatedAt := timestamp\<rparr>),
      Update_USERS uid (\<lambda>u. True)
        (\<lambda>u. u\<lparr>currentBorrowedCount := currentBorrowedCount u + 1, user_updatedAt := timestamp\<rparr>)]"

definition borrow_response :: "borrowing \<Rightarrow> response" where
  "borrow_response r =
     createResponse 200 (Borrowing_body
       \<lparr>view_id = brw_id r, view_userId = userId r, view_bookId = bookId r,
        view_borrowedAt = borrowedAt r, view_dueDate = dueDate r, view_returnedAt = None,
        view_status = status r\<rparr>)"

text \<open>
  \<open>borrowBook\<close>, run without interruption on the store \<open>s\<close>. Besides the event it takes
  \<^verbatim>\<open>process.env.API_KEY_VALUE\<close>, the value \<open>now\<close> of \<^verbatim>\<open>new Date()\<close> and the random
  part \<open>hex\<close> of the generated record id. It returns the response and the store.
\<close>

definition borrowBook :: "string option \<Rightarrow> int \<Rightarrow> string \<Rightarrow> event \<Rightarrow> store \<Rightarrow> response \<times> store" where
  "borrowBook API_KEY_VALUE now hex ev s =
     (case borrow_validate API_KEY_VALUE ev of
        Inl r \<Rightarrow> (r, s)
      | Inr (bid, uid, durationDays) \<Rightarrow>
         (case get_item book_id (BOOKS_TABLE s) bid of
            None \<Rightarrow> (not_found, s)
          | Some bk \<Rightarrow>
             if availableCopies bk \<le> 0
             then (conflict ''This book is not available for borrowing'', s)
             else
              (case get_item user_id (USERS_TABLE s) uid of
                 None \<Rightarrow> (not_found, s)
               | Some usr \<Rightarrow>
                  if currentBorrowedCount usr \<ge> borrowingLimit usr
                  then (conflict ''User has reached borrowing limit'', s)
                  else
                   (let borrowingRecord = new_borrowingRecord bid uid durationDays bk now hex
                    in case transactWrite (borrow_items borrowingRecord bid uid now) s of
                         None \<Rightarrow> (conflict ''Unable to borrow book - please try again'', s)
                       | Some s' \<Rightarrow> (borrow_response borrowingRecord, s')))))"

section \<open>The return handler (handlers/books.js)\<close>

definition return_validate :: "string option \<Rightarrow> event \<Rightarrow> response + (string \<times> string)" where
  "return_validate API_KEY_VALUE ev =
     (case validateApiKey API_KEY_VALUE ev of
        Some err \<Rightarrow> Inl err
      | None \<Rightarrow>
         (case body ev of
            None \<Rightarrow> Inl internal_server_error
          | Some b \<Rightarrow>
             (case path_bookId ev of
                None \<Rightarrow> Inl (bad_request ''bookId'' ''Invalid book ID format'')
              | Some bid \<Rightarrow>
                 if bid = [] \<or> \<not> matches_id ''bk_'' bid
                 then Inl (bad_request ''bookId'' ''Invalid book ID format'')
                 else
                  (case req_userId b of
                     None \<Rightarrow> Inl (bad_request ''userId'' ''Invalid user ID format'')
                   | Some uid \<Rightarrow>
                      if uid = [] \<or> \<not> matches_id ''usr_'' uid
                      then Inl (bad_request ''userId'' ''Invalid user ID format'')
                      else Inr (bid, uid)))))"

text \<open>The \<open>TransactItems\<close> of \<open>returnBook\<close>.\<close>

definition return_items :: "string \<Rightarrow> string \<Rightarrow> string \<Rightarrow> int \<Rightarrow> write_op list" where
  "return_items rid bid uid timestamp =
     [Update_BORROWING rid (\<lambda>r. True)
        (\<lambda>r. r\<lparr>status := Returned, returnedAt := Some timestamp, brw_updatedAt := Some timestamp\<rparr>),
      Update_BOOKS bid (\<lambda>b. True)
        (\<lambda>b. b\<lparr>availableCopies := availableCopies b + 1, book_updatedAt := timestamp\<rparr>),
      Update_USERS uid (\<lambda>u. currentBorrowedCount u > 0)
        (\<lambda>u. u\<lparr>currentBorrowedCount := currentBorrowedCount u - 1, user_updatedAt := timestamp\<rparr>)]"

definition return_response :: "borrowing \<Rightarrow> int \<Rightarrow> response" where
  "return_response r timestamp =
     createResponse 200 (Borrowing_body
       \<lparr>view_id = brw_id r, view_userId = userId r, view_bookId = bookId r,
        view_borrowedAt = borrowedAt r, view_dueDate = dueDate r,
        view_returnedAt = Some timestamp, view_status = Returned\<rparr>)"

text \<open>The query of \<open>returnBook\<close>: the active records of the user, filtered by the book.\<close>

definition find_active :: "string \<Rightarrow> string \<Rightarrow> store \<Rightarrow> borrowing list" where
  "find_active bid uid s = query_UserIndex uid Active (\<lambda>r. bookId r = bid) s"

text \<open>\<open>returnBook\<close>, run without interruption on the store \<open>s\<close>.\<close>

definition returnBook :: "string option \<Rightarrow> int \<Rightarrow> event \<Rightarrow> store \<Rightarrow> response \<times> store" where
  "returnBook API_KEY_VALUE now ev s =
     (case return_validate API_KEY_VALUE ev of
        Inl r \<Rightarrow> (r, s)
      | Inr (bid, uid) \<Rightarrow>
         (case find_active bid uid s of
            [] \<Rightarrow> (createErrorResponse 404 ''NOT_FOUND'' ''No active borrowing record found'' None, s)
          | borrowingRecord # _ \<Rightarrow>
             (case transactWrite (return_items (brw_id borrowingRecord) bid uid now) s of
                None \<Rightarrow> (conflict ''Unable to return book - please try again'', s)
              | Some s' \<Rightarrow> (return_response borrowingRecord now, s'))))"

section \<open>Requests in flight\<close>

text \<open>
  A handler is an \<open>async\<close> function: between two \<open>await\<close>s of the store another
  request may run. A request in flight is the handler's position with the values it
  has read so far. Each step does the local work up to the next store call and that
  call; the store calls (\<open>get\<close>, \<open>query\<close>, \<open>transactWrite\<close>) are atomic.
\<close>

datatype borrow_pc =
    Borrow_start
  | Borrow_got_book string string int "book option"
  | Borrow_got_user string string int book "user option"
  | Borrow_done response

fun borrow_step ::
  "string option \<Rightarrow> int \<Rightarrow> string \<Rightarrow> event \<Rightarrow> borrow_pc \<Rightarrow> store \<Rightarrow> borrow_pc \<times> store" where
  "borrow_step API_KEY_VALUE now hex ev Borrow_start s =
     (case borrow_validate API_KEY_VALUE ev of
        Inl r \<Rightarrow> (Borrow_done r, s)
      | Inr (bid, uid, durationDays) \<Rightarrow>
          (Borrow_got_book bid uid durationDays (get_item book_id (BOOKS_TABLE s) bid), s))"
| "borrow_step API_KEY_VALUE now hex ev (Borrow_got_book bid uid durationDays bookResult) s =
     (case bookResult of
        None \<Rightarrow> (Borrow_done not_found, s)
      | Some bk \<Rightarrow>
          if availableCopies bk \<le> 0
          then (Borrow_done (conflict ''This book is not available for borrowing''), s)
          else (Borrow_got_user bid uid durationDays bk (get_item user_id (USERS_TABLE s) uid), s))"
| "borrow_step API_KEY_VALUE now hex ev (Borrow_got_user bid uid durationDays bk userResult) s =
     (case userResult of
        None \<Rightarrow> (Borrow_done not_found, s)
      | Some usr \<Rightarrow>
          if currentBorrowedCount usr \<ge> borrowingLimit usr
          then (Borrow_done (conflict ''User has reached borrowing limit''), s)
          else
           (let borrowingRecord = new_borrowingRecord bid uid durationDays bk now hex
            in case transactWrite (borrow_items borrowingRecord bid uid now) s of
                 None \<Rightarrow> (Borrow_done (conflict ''Unable to borrow book - please try again''), s)
               | Some s' \<Rightarrow> (Borrow_done (borrow_response borrowingRecord), s')))"
| "borrow_step API_KEY_VALUE now hex ev (Borrow_done r) s = (Borrow_done r, s)"

datatype return_pc =
    Return_start
  | Return_got_records string string "borrowing list"
  | Return_done response

fun return_step ::
  "string option \<Rightarrow> int \<Rightarrow> event \<Rightarrow> return_pc \<Rightarrow> store \<Rightarrow> return_pc \<times> store" where
  "return_step API_KEY_VALUE now ev Return_start s =
     (case return_validate API_KEY_VALUE ev of
        Inl r \<Rightarrow> (Return_done r, s)
      | Inr (bid, uid) \<Rightarrow> (Return_got_records bid uid (find_active bid uid s), s))"
| "return_step API_KEY_VALUE now ev (Return_got_records bid uid items) s =
     (case items of
        [] \<Rightarrow> (Return_done (createErrorResponse 404 ''NOT_FOUND'' ''No active borrowing record found'' None), s)
      | borrowingRecord # _ \<Rightarrow>
         (case transactWrite (return_items (brw_id borrowingRecord) bid uid now) s of
            None \<Rightarrow> (Return_done (conflict ''Unable to return book - please try again''), s)
          | Some s' \<Rightarrow> (Return_done (return_response borrowingRecord now), s')))"
| "return_step API_KEY_VALUE now ev (Return_done r) s = (Return_done r, s)"

text \<open>
  A request in flight, with the values injected into it: the time \<open>now\<close> of its
  \<^verbatim>\<open>new Date()\<close>, the random part of its record id, its event.
\<close>

datatype proc =
    Borrow_proc int string event borrow_pc
  | Return_proc int event return_pc

fun proc_step :: "string option \<Rightarrow> proc \<Rightarrow> store \<Rightarrow> proc \<times> store" where
  "proc_step API_KEY_VALUE (Borrow_proc now hex ev pc) s =
     (case borrow_step API_KEY_VALUE now hex ev pc s of (pc', s') \<Rightarrow> (Borrow_proc now hex ev pc', s'))"
| "proc_step API_KEY_VALUE (Return_proc now ev pc) s =
     (case return_step API_KEY_VALUE now ev pc s of (pc', s') \<Rightarrow> (Return_proc now ev pc', s'))"

fun proc_result :: "proc \<Rightarrow> response option" where
  "proc_result (Borrow_proc now hex ev (Borrow_done r)) = Some r"
| "proc_result (Return_proc now ev (Return_done r)) = Some r"
| "proc_result _ = None"

text \<open>
  A schedule is the list of the indices of the requests that take the next step, in
  order; an index that names no request is skipped.
\<close>

fun run :: "string option \<Rightarrow> nat list \<Rightarrow> proc list \<times> store \<Rightarrow> proc list \<times> store" where
  "run API_KEY_VALUE [] c = c"
| "run API_KEY_VALUE (i # sched) (ps, s) =
     (if i < length ps
      then (case proc_step API_KEY_VALUE (ps ! i) s of
              (p', s') \<Rightarrow> run API_KEY_VALUE sched (ps[i := p'], s'))
      else run API_KEY_VALUE sched (ps, s))"

section \<open>The invariants of the counters\<close>

definition active_of_book :: "string \<Rightarrow> store \<Rightarrow> nat" where
  "active_of_book bid s =
     length (filter (\<lambda>r. bookId r = bid \<and> status r = Active) (BORROWING_TABLE s))"

definition active_of_user :: "string \<Rightarrow> store \<Rightarrow> nat" where
  "active_of_user uid s =
     length (filter (\<lambda>r. userId r = uid \<and> status r = Active) (BORROWING_TABLE s))"

definition book_invariant :: "store \<Rightarrow> bool" where
  "book_invariant s =
     list_all (\<lambda>b. availableCopies b = totalCopies b - int (active_of_book (book_id b) s))
       (BOOKS_TABLE s)"

definition user_invariant :: "store \<Rightarrow> bool" where
  "user_invariant s =
     list_all (\<lambda>u. currentBorrowedCount u = int (active_of_user (user_id u) s)
                 \<and> currentBorrowedCount u \<le> borrowingLimit u)
       (USERS_TABLE s)"

text \<open>The primary key of the borrowing table: no two records share an id.\<close>

definition unique_record_ids :: "store \<Rightarrow> bool" where
  "unique_record_ids s = distinct (map brw_id (BORROWING_TABLE s))"

text \<open>The primary keys of the three tables.\<close>

definition primary_keys :: "store \<Rightarrow> bool" where
  "primary_keys s =
     (distinct (map book_id (BOOKS_TABLE s)) \<and> distinct (map user_id (USERS_TABLE s))
      \<and> unique_record_ids s)"


text \<open>Operations run one after the other, each to its end.\<close>

datatype operation =
    Borrow int string event
  | Return int event

fun perform :: "string option \<Rightarrow> operation \<Rightarrow> store \<Rightarrow> response \<times> store" where
  "perform API_KEY_VALUE (Borrow now hex ev) s = borrowBook API_KEY_VALUE now hex ev s"
| "perform API_KEY_VALUE (Return now ev) s = returnBook API_KEY_VALUE now ev s"

fun perform_all :: "string option \<Rightarrow> operation list \<Rightarrow> store \<Rightarrow> store" where
  "perform_all API_KEY_VALUE [] s = s"
| "perform_all API_KEY_VALUE (operation # ops) s =
     perform_all API_KEY_VALUE ops (snd (perform API_KEY_VALUE operation s))"

text \<open>
  The record id generated for a borrow is not the id of a record in the table at
  the time of the borrow.
\<close>

fun fresh_id :: "operation \<Rightarrow> store \<Rightarrow> bool" where
  "fresh_id (Borrow now hex ev) s = (generateId ''brw'' hex \<notin> set (map brw_id (BORROWING_TABLE s)))"
| "fresh_id (Return now ev) s = True"

fun fresh_ids :: "string option \<Rightarrow> operation list \<Rightarrow> store \<Rightarrow> bool" where
  "fresh_ids API_KEY_VALUE [] s = True"
| "fresh_ids API_KEY_VALUE (operation # ops) s =
     (fresh_id operation s \<and> fresh_ids API_KEY_VALUE ops (snd (perform API_KEY_VALUE operation s)))"

section \<open>The effect of the transactions\<close>

text \<open>The stores that the two transactions produce when they are accepted.\<close>

definition after_borrow :: "string \<Rightarrow> string \<Rightarrow> borrowing \<Rightarrow> int \<Rightarrow> store \<Rightarrow> store" where
  "after_borrow bid uid r now s =
     \<lparr>BOOKS_TABLE = map (\<lambda>y. if book_id y = bid then y\<lparr>availableCopies := availableCopies y - 1, book_updatedAt := now\<rparr> else y) (BOOKS_TABLE s),
      USERS_TABLE = map (\<lambda>y. if user_id y = uid then y\<lparr>currentBorrowedCount := currentBorrowedCount y + 1, user_updatedAt := now\<rparr> else y) (USERS_TABLE s),
      BORROWING_TABLE = put_item brw_id r (BORROWING_TABLE s)\<rparr>"

definition after_return :: "string \<Rightarrow> string \<Rightarrow> string \<Rightarrow> int \<Rightarrow> store \<Rightarrow> store" where
  "after_return rid bid uid now s =
     \<lparr>BOOKS_TABLE = map (\<lambda>y. if book_id y = bid then y\<lparr>availableCopies := availableCopies y + 1, book_updatedAt := now\<rparr> else y) (BOOKS_TABLE s),
      USERS_TABLE = map (\<lambda>y. if user_id y = uid then y\<lparr>currentBorrowedCount := currentBorrowedCount y - 1, user_updatedAt := now\<rparr> else y) (USERS_TABLE s),
      BORROWING_TABLE = map (\<lambda>y. if brw_id y = rid then y\<lparr>status := Returned, returnedAt := Some now, brw_updatedAt := Some now\<rparr> else y) (BORROWING_TABLE s)\<rparr>"

section \<open>Example data\<close>

text \<open>
  The scenario of the specification: book \<open>bk_000001\<close> with one copy, available; user
  \<open>usr_000001\<close> with limit 5 and nothing borrowed.
\<close>

definition book_000001 :: book where
  "book_000001 = \<lparr>book_id = ''bk_000001'', title = ''Dune'', totalCopies = 1,
                   availableCopies = 1, book_updatedAt = 0\<rparr>"

definition user_000001 :: user where
  "user_000001 = \<lparr>user_id = ''usr_000001'', borrowingLimit = 5, currentBorrowedCount = 0,
                   user_updatedAt = 0\<rparr>"

definition scenario_store :: store where
  "scenario_store =
     \<lparr>BOOKS_TABLE = [book_000001], USERS_TABLE = [user_000001], BORROWING_TABLE = []\<rparr>"

text \<open>A request with the default API key, for a book, by a user, with a duration or none.\<close>

definition request :: "string \<Rightarrow> string \<Rightarrow> int option \<Rightarrow> event" where
  "request bid uid d =
     \<lparr>api_key = Some ''test-api-key'', path_bookId = Some bid,
      body = Some \<lparr>req_userId = Some uid, req_durationDays = d\<rparr>,
      queryStringParameters = None\<rparr>"

text \<open>A list request with the given \<open>page\<close> and \<open>limit\<close> parameters.\<close>

definition list_request :: "string option \<Rightarrow> string option \<Rightarrow> event" where
  "list_request p l =
     \<lparr>api_key = Some ''test-api-key'', path_bookId = None, body = None,
      queryStringParameters = Some \<lparr>page_param = p, limit_param = l\<rparr>\<rparr>"

text \<open>The record of a borrow of the book by the user at time 1000, for 14 days.\<close>

definition record_a1b2c3 :: borrowing where
  "record_a1b2c3 =
     \<lparr>brw_id = ''brw_a1b2c3'', userId = ''usr_000001'', bookId = ''bk_000001'',
      bookTitle = ''Dune'', borrowedAt = 1000, dueDate = 1000 + 14 * 86400000,
      status = Active, createdAt = 1000, returnedAt = None, brw_updatedAt = None\<rparr>"

text \<open>The scenario after that borrow.\<close>

definition borrowed_store :: store where
  "borrowed_store =
     \<lparr>BOOKS_TABLE = [book_000001\<lparr>availableCopies := 0\<rparr>],
      USERS_TABLE = [user_000001\<lparr>currentBorrowedCount := 1\<rparr>],
      BORROWING_TABLE = [record_a1b2c3]\<rparr>"

text \<open>
  A second active record of the same user for the same book, borrowed later (at time
  2000), and a store whose index returns it before the earlier one: the store of a book
  with two copies after the borrow stamped 2000 and then the borrow stamped 1000.
\<close>

definition record_b2c3d4 :: borrowing where
  "record_b2c3d4 =
     \<lparr>brw_id = ''brw_b2c3d4'', userId = ''usr_000001'', bookId = ''bk_000001'',
      bookTitle = ''Dune'', borrowedAt = 2000, dueDate = 2000 + 14 * 86400000,
      status = Active, createdAt = 2000, returnedAt = None, brw_updatedAt = None\<rparr>"

definition two_copies_store :: store where
  "two_copies_store =
     scenario_store\<lparr>BOOKS_TABLE := [book_000001\<lparr>totalCopies := 2, availableCopies := 2\<rparr>]\<rparr>"

definition two_records_store :: store where
  "two_records_store =
     \<lparr>BOOKS_TABLE = [book_000001\<lparr>totalCopies := 2, availableCopies := 0, book_updatedAt := 1000\<rparr>],
      USERS_TABLE = [user_000001\<lparr>currentBorrowedCount := 2, user_updatedAt := 1000\<rparr>],
      BORROWING_TABLE = [record_b2c3d4, record_a1b2c3]\<rparr>"

text \<open>
  A second book, and the store after the user has borrowed both books (at times 1000
  and 1500).
\<close>

definition book_000002 :: book where
  "book_000002 = \<lparr>book_id = ''bk_000002'', title = ''Emma'', totalCopies = 1,
                   availableCopies = 1, book_updatedAt = 0\<rparr>"

definition record_c3d4e5 :: borrowing where
  "record_c3d4e5 =
     \<lparr>brw_id = ''brw_c3d4e5'', userId = ''usr_000001'', bookId = ''bk_000002'',
      bookTitle = ''Emma'', borrowedAt = 1500, dueDate = 1500 + 14 * 86400000,
      status = Active, createdAt = 1500, returnedAt = None, brw_updatedAt = None\<rparr>"

definition two_books_store :: store where
  "two_books_store =
     \<lparr>BOOKS_TABLE = [book_000001\<lparr>availableCopies := 0, book_updatedAt := 1000\<rparr>,
                     book_000002\<lparr>availableCopies := 0, book_updatedAt := 1500\<rparr>],
      USERS_TABLE = [user_000001\<lparr>currentBorrowedCount := 2, user_updatedAt := 1500\<rparr>],
      BORROWING_TABLE = [record_a1b2c3, record_c3d4e5]\<rparr>"

text \<open>
  The store after two returns of the first book, at times 3000 and 3001, that both
  read the record before either wrote.
\<close>

definition after_double_return :: store where
  "after_double_return =
     \<lparr>BOOKS_TABLE = [book_000001\<lparr>availableCopies := 2, book_updatedAt := 3001\<rparr>,
                     book_000002\<lparr>availableCopies := 0, book_updatedAt := 1500\<rparr>],
      USERS_TABLE = [user_000001\<lparr>currentBorrowedCount := 0, user_updatedAt := 3001\<rparr>],
      BORROWING_TABLE =
        [record_a1b2c3\<lparr>status := Returned, returnedAt := Some 3001, brw_updatedAt := Some 3001\<rparr>,
         record_c3d4e5]\<rparr>"

text \<open>
  The store after the first borrow, with the second book on the shelf; a borrow of the
  second book whose generated id is again \<open>brw_a1b2c3\<close> collides with the stored record.
\<close>

definition collision_store :: store where
  "collision_store =
     borrowed_store\<lparr>BOOKS_TABLE := [book_000001\<lparr>availableCopies := 0\<rparr>, book_000002]\<rparr>"



section \<open>Predicates for the race of two borrows\<close>









text \<open>Two books on the shelf and a user who may borrow one book.\<close>

definition limit_one_store :: store where
  "limit_one_store =
     \<lparr>BOOKS_TABLE = [book_000001, book_000002],
      USERS_TABLE = [user_000001\<lparr>borrowingLimit := 1\<rparr>], BORROWING_TABLE = []\<rparr>"

section \<open>Pagination: properties\<close>

lemma parseInt_digits:
  "parseInt ''1'' = Num 1" "parseInt ''20'' = Num 20" "parseInt ''abc'' = NaN"
  by (simp_all add: parseInt_def is_space_def is_digit_def digits_value_def digit_value_def)

text \<open>
  When both parameters are missing or parse to a number, the page is at least 1, the
  limit lies in 1..100 and the offset is \<open>(page - 1) * limit\<close>.
\<close>

lemma parsePaginationParams_numeric:
  assumes "parseInt (or_default (Option.bind (queryStringParameters ev) page_param) ''1'') = Num p"
    and "parseInt (or_default (Option.bind (queryStringParameters ev) limit_param) ''20'') = Num l"
  shows "\<exists>p' l'. parsePaginationParams ev = \<lparr>page = Num p', limit = Num l', offset = Num ((p' - 1) * l')\<rparr>
           \<and> 1 \<le> p' \<and> 1 \<le> l' \<and> l' \<le> 100"
  using assms by (simp add: parsePaginationParams_def Let_def)

lemma parsePaginationParams_default:
  "parsePaginationParams (list_request None None) = \<lparr>page = Num 1, limit = Num 20, offset = Num 0\<rparr>"
  "queryStringParameters ev = None \<Longrightarrow>
     parsePaginationParams ev = \<lparr>page = Num 1, limit = Num 20, offset = Num 0\<rparr>"
  by (simp_all add: parsePaginationParams_def list_request_def or_default_def parseInt_digits)

text \<open>
  C10. The claim promises \<open>page \<ge> 1\<close> and \<open>1 \<le> limit \<le> 100\<close> also for non-numeric
  parameters. For \<^verbatim>\<open>?page=abc&limit=abc\<close> the code returns \<open>NaN\<close> in all three
  fields: \<open>parseInt\<close> gives \<open>NaN\<close> and \<open>Math.max\<close>, \<open>Math.min\<close> pass it on, so neither
  \<open>page >= 1\<close> nor \<open>limit >= 1\<close> nor \<open>limit <= 100\<close> holds of the result.
\<close>

theorem parsePaginationParams_non_numeric:
  "parsePaginationParams (list_request (Some ''abc'') (Some ''abc''))
     = \<lparr>page = NaN, limit = NaN, offset = NaN\<rparr>
   \<and> \<not> js_ge (page (parsePaginationParams (list_request (Some ''abc'') (Some ''abc'')))) (Num 1)
   \<and> \<not> js_ge (limit (parsePaginationParams (list_request (Some ''abc'') (Some ''abc'')))) (Num 1)
   \<and> \<not> js_le (limit (parsePaginationParams (list_request (Some ''abc'') (Some ''abc'')))) (Num 100)"
  by (simp add: parsePaginationParams_def list_request_def or_default_def parseInt_digits)

section \<open>Tables\<close>






lemma put_item_fresh:
  "key x \<notin> set (map key tbl) \<Longrightarrow> put_item key x tbl = tbl @ [x]"
proof -
  assume "key x \<notin> set (map key tbl)"
  then have "\<not> (\<exists>y\<in>set tbl. key y = key x)" by (simp add: image_iff) metis
  then show ?thesis by (simp add: put_item_def list_ex_iff)
qed

text \<open>The two transactions, computed.\<close>

lemma transactWrite_borrow:
  "transactWrite (borrow_items r bid uid now) s =
     (case get_item book_id (BOOKS_TABLE s) bid of
        None \<Rightarrow> None
      | Some bk \<Rightarrow>
         if availableCopies bk > 0 then
           (case get_item user_id (USERS_TABLE s) uid of
              None \<Rightarrow> None
            | Some usr \<Rightarrow>
               Some \<lparr>BOOKS_TABLE = map (\<lambda>y. if book_id y = bid then y\<lparr>availableCopies := availableCopies y - 1, book_updatedAt := now\<rparr> else y) (BOOKS_TABLE s),
                     USERS_TABLE = map (\<lambda>y. if user_id y = uid then y\<lparr>currentBorrowedCount := currentBorrowedCount y + 1, user_updatedAt := now\<rparr> else y) (USERS_TABLE s),
                     BORROWING_TABLE = put_item brw_id r (BORROWING_TABLE s)\<rparr>)
         else None)"
  by (simp add: borrow_items_def update_item_def split: option.splits)

lemma transactWrite_return:
  "transactWrite (return_items rid bid uid now) s =
     (case get_item brw_id (BORROWING_TABLE s) rid of
        None \<Rightarrow> None
      | Some r \<Rightarrow>
        (case get_item book_id (BOOKS_TABLE s) bid of
          None \<Rightarrow> None
        | Some bk \<Rightarrow>
           (case get_item user_id (USERS_TABLE s) uid of
              None \<Rightarrow> None
            | Some usr \<Rightarrow>
               if currentBorrowedCount usr > 0 then
               Some \<lparr>BOOKS_TABLE = map (\<lambda>y. if book_id y = bid then y\<lparr>availableCopies := availableCopies y + 1, book_updatedAt := now\<rparr> else y) (BOOKS_TABLE s),
                     USERS_TABLE = map (\<lambda>y. if user_id y = uid then y\<lparr>currentBorrowedCount := currentBorrowedCount y - 1, user_updatedAt := now\<rparr> else y) (USERS_TABLE s),
                     BORROWING_TABLE = map (\<lambda>y. if brw_id y = rid then y\<lparr>status := Returned, returnedAt := Some now, brw_updatedAt := Some now\<rparr> else y) (BORROWING_TABLE s)\<rparr>
               else None)))"
  by (simp add: return_items_def update_item_def split: option.splits)

section \<open>Responses and example requests\<close>

lemma statusCode_simps:
  "statusCode not_found = 404" "statusCode (conflict m) = 409"
  "statusCode internal_server_error = 500" "statusCode (bad_request f r) = 400"
  "statusCode (borrow_response b) = 200" "statusCode (return_response b t) = 200"
  "statusCode (createErrorResponse sc c m d) = sc"
  by (simp_all add: not_found_def conflict_def internal_server_error_def bad_request_def
      borrow_response_def return_response_def createErrorResponse_def createResponse_def)

lemma request_valid:
  "borrow_validate None (request ''bk_000001'' ''usr_000001'' d)
     = Inr (''bk_000001'', ''usr_000001'', duration_or_default d)"
  "return_validate None (request ''bk_000001'' ''usr_000001'' d) = Inr (''bk_000001'', ''usr_000001'')"
  by (simp_all add: borrow_validate_def return_validate_def request_def validateApiKey_def
      or_default_def matches_id_def is_alnum_def)


lemma scenario_reads:
  "get_item book_id (BOOKS_TABLE scenario_store) ''bk_000001'' = Some book_000001"
  "get_item user_id (USERS_TABLE scenario_store) ''usr_000001'' = Some user_000001"
  by (simp_all add: scenario_store_def get_item_def book_000001_def user_000001_def)

lemmas example_defs = scenario_store_def borrowed_store_def two_records_store_def two_copies_store_def
  two_books_store_def after_double_return_def book_000001_def book_000002_def user_000001_def
  record_a1b2c3_def record_b2c3d4_def record_c3d4e5_def

lemma request_valid2:
  "borrow_validate None (request ''bk_000002'' ''usr_000001'' d)
     = Inr (''bk_000002'', ''usr_000001'', duration_or_default d)"
  "return_validate None (request ''bk_000002'' ''usr_000001'' d) = Inr (''bk_000002'', ''usr_000001'')"
  by (simp_all add: borrow_validate_def return_validate_def request_def validateApiKey_def
      or_default_def matches_id_def is_alnum_def)

section \<open>Steps and whole operations\<close>

text \<open>
  A request that takes all its steps without another request in between is the
  handler run as a whole.
\<close>

lemma borrow_steps_sequential:
  "run env [0, 0, 0] ([Borrow_proc now hex ev Borrow_start], s)
     = ([Borrow_proc now hex ev (Borrow_done (fst (borrowBook env now hex ev s)))],
        snd (borrowBook env now hex ev s))"
  by (simp add: borrowBook_def Let_def split: sum.splits option.splits prod.splits)

lemma return_steps_sequential:
  "run env [0, 0] ([Return_proc now ev Return_start], s)
     = ([Return_proc now ev (Return_done (fst (returnBook env now ev s)))],
        snd (returnBook env now ev s))"
  by (simp add: returnBook_def split: sum.splits option.splits prod.splits list.splits)

section \<open>The borrow operation\<close>

text \<open>
  C6. Once the request has passed the checks of its form, \<open>borrowBook\<close> reads the book,
  then the user, and answers the first failing precondition, in this order, before any
  write (the store is returned as it was): 404 \<open>NOT_FOUND\<close> when the book does not
  exist; 409 \<open>CONFLICT\<close> (book not available) when \<open>availableCopies\<close> is not positive,
  whatever the user; 404 \<open>NOT_FOUND\<close> when the user does not exist; 409 \<open>CONFLICT\<close>
  (borrowing limit reached) when \<open>currentBorrowedCount\<close> is not below \<open>borrowingLimit\<close>.
\<close>

theorem borrow_preconditions_in_order:
  assumes "borrow_validate env ev = Inr (bid, uid, d)"
  shows "(get_item book_id (BOOKS_TABLE s) bid = None \<longrightarrow>
            borrowBook env now hex ev s
              = (createErrorResponse 404 ''NOT_FOUND'' ''The requested resource was not found'' None, s))
       \<and> (\<forall>bk. get_item book_id (BOOKS_TABLE s) bid = Some bk \<and> availableCopies bk \<le> 0 \<longrightarrow>
            borrowBook env now hex ev s
              = (createErrorResponse 409 ''CONFLICT'' ''This book is not available for borrowing'' None, s))
       \<and> (\<forall>bk. get_item book_id (BOOKS_TABLE s) bid = Some bk \<and> 0 < availableCopies bk
               \<and> get_item user_id (USERS_TABLE s) uid = None \<longrightarrow>
            borrowBook env now hex ev s
              = (createErrorResponse 404 ''NOT_FOUND'' ''The requested resource was not found'' None, s))
       \<and> (\<forall>bk usr. get_item book_id (BOOKS_TABLE s) bid = Some bk \<and> 0 < availableCopies bk
               \<and> get_item user_id (USERS_TABLE s) uid = Some usr
               \<and> borrowingLimit usr \<le> currentBorrowedCount usr \<longrightarrow>
            borrowBook env now hex ev s
              = (createErrorResponse 409 ''CONFLICT'' ''User has reached borrowing limit'' None, s))"
  using assms by (simp add: borrowBook_def not_found_def conflict_def)

theorem borrow_preconditions_in_order_witness:
  "borrowBook None 1000 ''a1b2c3'' (request ''bk_000001'' ''usr_000001'' None)
       (scenario_store\<lparr>BOOKS_TABLE := []\<rparr>)
     = (createErrorResponse 404 ''NOT_FOUND'' ''The requested resource was not found'' None,
        scenario_store\<lparr>BOOKS_TABLE := []\<rparr>)
   \<and> borrowBook None 1000 ''a1b2c3'' (request ''bk_000001'' ''usr_000001'' None)
       (scenario_store\<lparr>BOOKS_TABLE := [book_000001\<lparr>availableCopies := 0\<rparr>], USERS_TABLE := []\<rparr>)
     = (createErrorResponse 409 ''CONFLICT'' ''This book is not available for borrowing'' None,
        scenario_store\<lparr>BOOKS_TABLE := [book_000001\<lparr>availableCopies := 0\<rparr>], USERS_TABLE := []\<rparr>)
   \<and> borrowBook None 1000 ''a1b2c3'' (request ''bk_000001'' ''usr_000001'' None)
       (scenario_store\<lparr>USERS_TABLE := []\<rparr>)
     = (createErrorResponse 404 ''NOT_FOUND'' ''The requested resource was not found'' None,
        scenario_store\<lparr>USERS_TABLE := []\<rparr>)
   \<and> borrowBook None 1000 ''a1b2c3'' (request ''bk_000001'' ''usr_000001'' None)
       (scenario_store\<lparr>USERS_TABLE := [user_000001\<lparr>currentBorrowedCount := 5\<rparr>]\<rparr>)
     = (createErrorResponse 409 ''CONFLICT'' ''User has reached borrowing limit'' None,
        scenario_store\<lparr>USERS_TABLE := [user_000001\<lparr>currentBorrowedCount := 5\<rparr>]\<rparr>)"
  using borrow_preconditions_in_order[OF request_valid(1), where s="scenario_store\<lparr>BOOKS_TABLE := []\<rparr>" and now=1000 and hex="''a1b2c3''"]
    borrow_preconditions_in_order[OF request_valid(1), where s="scenario_store\<lparr>BOOKS_TABLE := [book_000001\<lparr>availableCopies := 0\<rparr>], USERS_TABLE := []\<rparr>" and now=1000 and hex="''a1b2c3''"]
    borrow_preconditions_in_order[OF request_valid(1), where s="scenario_store\<lparr>USERS_TABLE := []\<rparr>" and now=1000 and hex="''a1b2c3''"]
    borrow_preconditions_in_order[OF request_valid(1), where s="scenario_store\<lparr>USERS_TABLE := [user_000001\<lparr>currentBorrowedCount := 5\<rparr>]\<rparr>" and now=1000 and hex="''a1b2c3''"]
  by (simp add: scenario_store_def get_item_def book_000001_def user_000001_def)

section \<open>Failed operations\<close>

lemma borrowBook_failed:
  "statusCode (fst (borrowBook env now hex ev s)) \<noteq> 200 \<Longrightarrow> snd (borrowBook env now hex ev s) = s"
  by (auto simp: borrowBook_def Let_def statusCode_simps split: sum.splits option.splits if_splits prod.splits)

lemma returnBook_failed:
  "statusCode (fst (returnBook env now ev s)) \<noteq> 200 \<Longrightarrow> snd (returnBook env now ev s) = s"
  by (auto simp: returnBook_def Let_def statusCode_simps split: sum.splits option.splits if_splits prod.splits list.splits)

lemma borrow_step_failed:
  "(\<forall>r. fst (borrow_step env now hex ev pc s) = Borrow_done r \<longrightarrow> statusCode r \<noteq> 200)
    \<Longrightarrow> snd (borrow_step env now hex ev pc s) = s"
  by (cases pc) (auto simp: Let_def statusCode_simps split: sum.splits option.splits if_splits prod.splits)

lemma return_step_failed:
  "(\<forall>r. fst (return_step env now ev pc s) = Return_done r \<longrightarrow> statusCode r \<noteq> 200)
    \<Longrightarrow> snd (return_step env now ev pc s) = s"
  by (cases pc) (auto simp: Let_def statusCode_simps split: sum.splits option.splits if_splits prod.splits list.splits)

lemma proc_step_failed:
  assumes "\<forall>r. proc_result (fst (proc_step env p s)) = Some r \<longrightarrow> statusCode r \<noteq> 200"
  shows "snd (proc_step env p s) = s"
proof (cases p)
  case (Borrow_proc now hex ev pc)
  have "\<forall>r. fst (borrow_step env now hex ev pc s) = Borrow_done r \<longrightarrow> statusCode r \<noteq> 200"
    using assms Borrow_proc by (auto split: prod.splits)
  from borrow_step_failed[OF this] show ?thesis
    using Borrow_proc by (cases "borrow_step env now hex ev pc s") simp
next
  case (Return_proc now ev pc)
  have "\<forall>r. fst (return_step env now ev pc s) = Return_done r \<longrightarrow> statusCode r \<noteq> 200"
    using assms Return_proc by (auto split: prod.splits)
  from return_step_failed[OF this] show ?thesis
    using Return_proc by (cases "return_step env now ev pc s") simp
qed

text \<open>
  C7. A borrow or a return that does not answer 200 returns the store it was given:
  the book, the user and the borrowing records are unchanged. This holds of the whole
  operation and of every single step of a request in flight, so also when the atomic
  write itself is refused. In particular a user whose \<open>currentBorrowedCount\<close> equals
  the \<open>borrowingLimit\<close> receives 409 \<open>CONFLICT\<close> and the store is unchanged.
\<close>

theorem failed_operation_changes_nothing:
  "(statusCode (fst (borrowBook env now hex ev s)) \<noteq> 200 \<longrightarrow> snd (borrowBook env now hex ev s) = s)
   \<and> (statusCode (fst (returnBook env now ev s)) \<noteq> 200 \<longrightarrow> snd (returnBook env now ev s) = s)
   \<and> ((\<forall>r. proc_result (fst (proc_step env p s)) = Some r \<longrightarrow> statusCode r \<noteq> 200)
        \<longrightarrow> snd (proc_step env p s) = s)
   \<and> (\<forall>bid uid d bk usr.
         borrow_validate env ev = Inr (bid, uid, d)
         \<and> get_item book_id (BOOKS_TABLE s) bid = Some bk \<and> 0 < availableCopies bk
         \<and> get_item user_id (USERS_TABLE s) uid = Some usr
         \<and> currentBorrowedCount usr = borrowingLimit usr
         \<longrightarrow> borrowBook env now hex ev s
               = (createErrorResponse 409 ''CONFLICT'' ''User has reached borrowing limit'' None, s))"
proof (intro conjI impI allI)
  show "snd (borrowBook env now hex ev s) = s"
    if "statusCode (fst (borrowBook env now hex ev s)) \<noteq> 200"
    using that by (rule borrowBook_failed)
  show "snd (returnBook env now ev s) = s"
    if "statusCode (fst (returnBook env now ev s)) \<noteq> 200"
    using that by (rule returnBook_failed)
  show "snd (proc_step env p s) = s"
    if "\<forall>r. proc_result (fst (proc_step env p s)) = Some r \<longrightarrow> statusCode r \<noteq> 200"
    using that by (rule proc_step_failed)
  show "borrowBook env now hex ev s
          = (createErrorResponse 409 ''CONFLICT'' ''User has reached borrowing limit'' None, s)"
    if "borrow_validate env ev = Inr (bid, uid, d)
         \<and> get_item book_id (BOOKS_TABLE s) bid = Some bk \<and> 0 < availableCopies bk
         \<and> get_item user_id (USERS_TABLE s) uid = Some usr
         \<and> currentBorrowedCount usr = borrowingLimit usr" for bid uid d bk usr
    using that by (simp add: borrowBook_def conflict_def)
qed

theorem failed_operation_changes_nothing_witness:
  "borrowBook None 1000 ''a1b2c3'' (request ''bk_000001'' ''usr_000001'' None)
       (scenario_store\<lparr>USERS_TABLE := [user_000001\<lparr>currentBorrowedCount := 5\<rparr>]\<rparr>)
     = (createErrorResponse 409 ''CONFLICT'' ''User has reached borrowing limit'' None,
        scenario_store\<lparr>USERS_TABLE := [user_000001\<lparr>currentBorrowedCount := 5\<rparr>]\<rparr>)
   \<and> statusCode (fst (returnBook None 2000 (request ''bk_000001'' ''usr_000001'' None) scenario_store)) = 404
   \<and> snd (returnBook None 2000 (request ''bk_000001'' ''usr_000001'' None) scenario_store) = scenario_store
   \<and> proc_result (fst (proc_step None
        (Borrow_proc 1000 ''a1b2c3'' (request ''bk_000001'' ''usr_000001'' None)
           (Borrow_got_user ''bk_000001'' ''usr_000001'' 14 book_000001 (Some user_000001)))
        (scenario_store\<lparr>BOOKS_TABLE := [book_000001\<lparr>availableCopies := 0\<rparr>]\<rparr>)))
      = Some (createErrorResponse 409 ''CONFLICT'' ''Unable to borrow book - please try again'' None)
   \<and> snd (proc_step None
        (Borrow_proc 1000 ''a1b2c3'' (request ''bk_000001'' ''usr_000001'' None)
           (Borrow_got_user ''bk_000001'' ''usr_000001'' 14 book_000001 (Some user_000001)))
        (scenario_store\<lparr>BOOKS_TABLE := [book_000001\<lparr>availableCopies := 0\<rparr>]\<rparr>))
      = scenario_store\<lparr>BOOKS_TABLE := [book_000001\<lparr>availableCopies := 0\<rparr>]\<rparr>"
proof -
  let ?ev = "request ''bk_000001'' ''usr_000001'' None"
  let ?L = "scenario_store\<lparr>USERS_TABLE := [user_000001\<lparr>currentBorrowedCount := 5\<rparr>]\<rparr>"
  let ?Z = "scenario_store\<lparr>BOOKS_TABLE := [book_000001\<lparr>availableCopies := 0\<rparr>]\<rparr>"
  let ?p = "Borrow_proc 1000 ''a1b2c3'' ?ev
              (Borrow_got_user ''bk_000001'' ''usr_000001'' 14 book_000001 (Some user_000001))"
  note main = failed_operation_changes_nothing
  have limit: "borrow_validate None ?ev = Inr (''bk_000001'', ''usr_000001'', 14)
         \<and> get_item book_id (BOOKS_TABLE ?L) ''bk_000001'' = Some book_000001
         \<and> 0 < availableCopies book_000001
         \<and> get_item user_id (USERS_TABLE ?L) ''usr_000001'' = Some (user_000001\<lparr>currentBorrowedCount := 5\<rparr>)
         \<and> currentBorrowedCount (user_000001\<lparr>currentBorrowedCount := 5\<rparr>)
             = borrowingLimit (user_000001\<lparr>currentBorrowedCount := 5\<rparr>)"
    by (simp add: request_valid duration_or_default_def scenario_store_def get_item_def
        book_000001_def user_000001_def)
  have a: "borrowBook None 1000 ''a1b2c3'' ?ev ?L
     = (createErrorResponse 409 ''CONFLICT'' ''User has reached borrowing limit'' None, ?L)"
    using main[where env=None and now=1000 and hex="''a1b2c3''" and ev="?ev" and s="?L",
        THEN conjunct2, THEN conjunct2, THEN conjunct2, rule_format, OF limit] .
  have r404: "statusCode (fst (returnBook None 2000 ?ev scenario_store)) = 404"
    by (simp add: returnBook_def request_valid find_active_def query_UserIndex_def
        scenario_store_def statusCode_simps)
  then have "statusCode (fst (returnBook None 2000 ?ev scenario_store)) \<noteq> 200" by simp
  from main[where env=None and now=2000 and ev="?ev" and s=scenario_store,
        THEN conjunct2, THEN conjunct1, THEN mp, OF this]
  have b: "snd (returnBook None 2000 ?ev scenario_store) = scenario_store" .
  have res: "proc_result (fst (proc_step None ?p ?Z))
      = Some (createErrorResponse 409 ''CONFLICT'' ''Unable to borrow book - please try again'' None)"
    by (simp add: transactWrite_borrow scenario_store_def get_item_def book_000001_def
        user_000001_def conflict_def)
  then have "\<forall>r. proc_result (fst (proc_step None ?p ?Z)) = Some r \<longrightarrow> statusCode r \<noteq> 200"
    by (simp add: statusCode_simps)
  from main[where env=None and p="?p" and s="?Z",
        THEN conjunct2, THEN conjunct2, THEN conjunct1, THEN mp, OF this]
  have c: "snd (proc_step None ?p ?Z) = ?Z" .
  show ?thesis using a r404 b res c by simp
qed

section \<open>A successful borrow\<close>



section \<open>The duration of a loan\<close>

text \<open>
  C9. The claim says that a borrow request whose \<open>durationDays\<close> lies outside 1..30 is
  rejected before any read or write. The handler checks the API key and the two
  identifiers and nothing else: the request with \<open>durationDays = 45\<close> is answered 200,
  the three tables are written and the record is due 45 days after \<open>borrowedAt\<close>.
\<close>

theorem borrow_duration_not_validated:
  "borrowBook None 1000 ''a1b2c3'' (request ''bk_000001'' ''usr_000001'' (Some 45)) scenario_store
     = (createResponse 200 (Borrowing_body
          \<lparr>view_id = ''brw_a1b2c3'', view_userId = ''usr_000001'', view_bookId = ''bk_000001'',
           view_borrowedAt = 1000, view_dueDate = 1000 + 45 * 86400000, view_returnedAt = None,
           view_status = Active\<rparr>),
        \<lparr>BOOKS_TABLE = [book_000001\<lparr>availableCopies := 0, book_updatedAt := 1000\<rparr>],
         USERS_TABLE = [user_000001\<lparr>currentBorrowedCount := 1, user_updatedAt := 1000\<rparr>],
         BORROWING_TABLE = [record_a1b2c3\<lparr>dueDate := 1000 + 45 * 86400000\<rparr>]\<rparr>)"
  by (simp add: borrowBook_def request_valid duration_or_default_def scenario_reads
      transactWrite_borrow new_borrowingRecord_def generateId_def setDate_plus_def ms_per_day_def
      put_item_def borrow_response_def record_a1b2c3_def)
    (simp add: scenario_store_def book_000001_def user_000001_def)

section \<open>The return operation\<close>


lemma find_active_member:
  "find_active bid uid s = r # rs \<Longrightarrow>
     r \<in> set (BORROWING_TABLE s) \<and> bookId r = bid \<and> userId r = uid \<and> status r = Active"
proof -
  assume "find_active bid uid s = r # rs"
  then have "r \<in> set (filter (\<lambda>r. userId r = uid \<and> status r = Active \<and> bookId r = bid) (BORROWING_TABLE s))"
    by (simp add: find_active_def query_UserIndex_def)
  then show ?thesis by simp
qed

lemma get_item_distinct:
  "distinct (map key tbl) \<Longrightarrow> x \<in> set tbl \<Longrightarrow> get_item key tbl (key x) = Some x"
  by (induction tbl) (auto simp: get_item_def)




section \<open>Several active records for one user and book\<close>






section \<open>The invariants of the counters are preserved\<close>

lemma map_update_absent:
  "k \<notin> set (map key tbl) \<Longrightarrow> map (\<lambda>y. if key y = k then f y else y) tbl = tbl"
  by (induction tbl) auto

lemma filter_length_update:
  assumes "distinct (map key tbl)" and "r \<in> set tbl"
  shows "length (filter P (map (\<lambda>y. if key y = key r then f y else y) tbl)) + (if P r then 1 else 0)
         = length (filter P tbl) + (if P (f r) then 1 else 0)"
  using assms
proof (induction tbl)
  case Nil
  then show ?case by simp
next
  case (Cons a tbl)
  show ?case
  proof (cases "a = r")
    case True
    then have "key r \<notin> set (map key tbl)" using Cons.prems(1) by simp
    then have "map (\<lambda>y. if key y = key r then f y else y) tbl = tbl"
      by (rule map_update_absent)
    then show ?thesis using True by simp
  next
    case False
    then have mem: "r \<in> set tbl" using Cons.prems(2) by simp
    then have "key a \<noteq> key r" using Cons.prems(1) by (simp add: image_iff)
    moreover have "distinct (map key tbl)" using Cons.prems(1) by simp
    ultimately show ?thesis using Cons.IH mem by simp
  qed
qed

lemma map_key_update:
  "(\<And>x. key (f x) = key x) \<Longrightarrow> map (key \<circ> (\<lambda>y. if key y = k then f y else y)) tbl = map key tbl"
  by (induction tbl) auto

lemma get_item_unique:
  "distinct (map key tbl) \<Longrightarrow> get_item key tbl k = Some x \<Longrightarrow> y \<in> set tbl \<Longrightarrow> key y = k \<Longrightarrow> y = x"
  using get_item_distinct[of key tbl y] by simp



lemma borrowBook_snd:
  "snd (borrowBook env now hex ev s) =
     (case borrow_validate env ev of
        Inl r \<Rightarrow> s
      | Inr (bid, uid, d) \<Rightarrow>
         (case get_item book_id (BOOKS_TABLE s) bid of
            None \<Rightarrow> s
          | Some bk \<Rightarrow>
             if availableCopies bk \<le> 0 then s
             else
              (case get_item user_id (USERS_TABLE s) uid of
                 None \<Rightarrow> s
               | Some usr \<Rightarrow>
                  if currentBorrowedCount usr \<ge> borrowingLimit usr then s
                  else after_borrow bid uid (new_borrowingRecord bid uid d bk now hex) now s)))"
  by (simp add: borrowBook_def Let_def transactWrite_borrow after_borrow_def
      split: sum.splits option.splits prod.splits)

lemma returnBook_snd:
  "snd (returnBook env now ev s) =
     (case return_validate env ev of
        Inl r \<Rightarrow> s
      | Inr (bid, uid) \<Rightarrow>
         (case find_active bid uid s of
            [] \<Rightarrow> s
          | r # rs \<Rightarrow>
             (case get_item brw_id (BORROWING_TABLE s) (brw_id r) of
                None \<Rightarrow> s
              | Some r' \<Rightarrow>
                (case get_item book_id (BOOKS_TABLE s) bid of
                   None \<Rightarrow> s
                 | Some bk \<Rightarrow>
                   (case get_item user_id (USERS_TABLE s) uid of
                      None \<Rightarrow> s
                    | Some usr \<Rightarrow>
                       if currentBorrowedCount usr > 0
                       then after_return (brw_id r) bid uid now s else s)))))"
  by (simp add: returnBook_def transactWrite_return after_return_def
      split: sum.splits option.splits prod.splits list.splits)

lemma borrowBook_cases:
  assumes "snd (borrowBook env now hex ev s) \<noteq> s"
  obtains bid uid d bk usr where
    "get_item book_id (BOOKS_TABLE s) bid = Some bk"
    "get_item user_id (USERS_TABLE s) uid = Some usr"
    "currentBorrowedCount usr < borrowingLimit usr"
    "snd (borrowBook env now hex ev s)
       = after_borrow bid uid (new_borrowingRecord bid uid d bk now hex) now s"
  using assms unfolding borrowBook_snd
  by (fastforce split: sum.splits option.splits prod.splits if_splits)

lemma returnBook_cases:
  assumes "snd (returnBook env now ev s) \<noteq> s"
  obtains bid uid r rs usr where
    "find_active bid uid s = r # rs"
    "get_item user_id (USERS_TABLE s) uid = Some usr" "0 < currentBorrowedCount usr"
    "snd (returnBook env now ev s) = after_return (brw_id r) bid uid now s"
  using assms unfolding returnBook_snd
  by (fastforce split: sum.splits option.splits prod.splits if_splits list.splits)


lemma active_after_borrow:
  assumes "brw_id r \<notin> set (map brw_id (BORROWING_TABLE s))"
  shows "active_of_book b (after_borrow bid uid r now s)
           = active_of_book b s + (if bookId r = b \<and> status r = Active then 1 else 0)"
    and "active_of_user u (after_borrow bid uid r now s)
           = active_of_user u s + (if userId r = u \<and> status r = Active then 1 else 0)"
  using put_item_fresh[OF assms]
  by (simp_all add: active_of_book_def active_of_user_def after_borrow_def)

lemma active_after_return:
  assumes "unique_record_ids s" and "r \<in> set (BORROWING_TABLE s)" and "status r = Active"
  shows "active_of_book b (after_return (brw_id r) bid uid now s) + (if bookId r = b then 1 else 0)
           = active_of_book b s"
    and "active_of_user u (after_return (brw_id r) bid uid now s) + (if userId r = u then 1 else 0)
           = active_of_user u s"
  using filter_length_update[of brw_id "BORROWING_TABLE s" r "\<lambda>r. bookId r = b \<and> status r = Active"
          "\<lambda>y. y\<lparr>status := Returned, returnedAt := Some now, brw_updatedAt := Some now\<rparr>"]
        filter_length_update[of brw_id "BORROWING_TABLE s" r "\<lambda>r. userId r = u \<and> status r = Active"
          "\<lambda>y. y\<lparr>status := Returned, returnedAt := Some now, brw_updatedAt := Some now\<rparr>"]
        assms
  by (simp_all add: active_of_book_def active_of_user_def after_return_def unique_record_ids_def)

lemma primary_keys_after_borrow:
  assumes "primary_keys s" and "brw_id r \<notin> set (map brw_id (BORROWING_TABLE s))"
  shows "primary_keys (after_borrow bid uid r now s)"
  using assms put_item_fresh[OF assms(2)]
  by (simp add: primary_keys_def unique_record_ids_def after_borrow_def map_key_update)

lemma primary_keys_after_return:
  assumes "primary_keys s"
  shows "primary_keys (after_return rid bid uid now s)"
  using assms
  by (simp add: primary_keys_def unique_record_ids_def after_return_def map_key_update)

lemma book_invariant_after_borrow:
  assumes inv: "book_invariant s"
    and fresh: "brw_id r \<notin> set (map brw_id (BORROWING_TABLE s))"
    and r: "bookId r = bid" "status r = Active"
  shows "book_invariant (after_borrow bid uid r now s)"
proof -
  have "availableCopies y' = totalCopies y' - int (active_of_book (book_id y') (after_borrow bid uid r now s))"
    if "y' \<in> set (BOOKS_TABLE (after_borrow bid uid r now s))" for y'
  proof -
    from that obtain y where y: "y \<in> set (BOOKS_TABLE s)"
      and y': "y' = (if book_id y = bid then y\<lparr>availableCopies := availableCopies y - 1, book_updatedAt := now\<rparr> else y)"
      by (auto simp: after_borrow_def)
    have "availableCopies y = totalCopies y - int (active_of_book (book_id y) s)"
      using inv y by (simp add: book_invariant_def list_all_iff)
    then show ?thesis using y' r by (simp add: active_after_borrow(1)[OF fresh])
  qed
  then show ?thesis by (simp add: book_invariant_def list_all_iff)
qed

lemma user_invariant_after_borrow:
  assumes inv: "user_invariant s" and keys: "primary_keys s"
    and fresh: "brw_id r \<notin> set (map brw_id (BORROWING_TABLE s))"
    and r: "userId r = uid" "status r = Active"
    and usr: "get_item user_id (USERS_TABLE s) uid = Some usr"
             "currentBorrowedCount usr < borrowingLimit usr"
  shows "user_invariant (after_borrow bid uid r now s)"
proof -
  have "currentBorrowedCount y' = int (active_of_user (user_id y') (after_borrow bid uid r now s))
        \<and> currentBorrowedCount y' \<le> borrowingLimit y'"
    if "y' \<in> set (USERS_TABLE (after_borrow bid uid r now s))" for y'
  proof -
    from that obtain y where y: "y \<in> set (USERS_TABLE s)"
      and y': "y' = (if user_id y = uid then y\<lparr>currentBorrowedCount := currentBorrowedCount y + 1, user_updatedAt := now\<rparr> else y)"
      by (auto simp: after_borrow_def)
    have old: "currentBorrowedCount y = int (active_of_user (user_id y) s)"
      "currentBorrowedCount y \<le> borrowingLimit y"
      using inv y unfolding user_invariant_def list_all_iff by blast+
    show ?thesis
    proof (cases "user_id y = uid")
      case True
      have "y = usr"
        using get_item_unique[OF _ usr(1) y True] keys by (simp add: primary_keys_def)
      then show ?thesis using True y' old usr(2) r by (simp add: active_after_borrow(2)[OF fresh])
    next
      case False
      then show ?thesis using y' old r by (simp add: active_after_borrow(2)[OF fresh])
    qed
  qed
  then show ?thesis unfolding user_invariant_def list_all_iff by blast
qed

lemma book_invariant_after_return:
  assumes inv: "book_invariant s" and keys: "unique_record_ids s"
    and r: "r \<in> set (BORROWING_TABLE s)" "status r = Active" "bookId r = bid"
  shows "book_invariant (after_return (brw_id r) bid uid now s)"
proof -
  have "availableCopies y' = totalCopies y' - int (active_of_book (book_id y') (after_return (brw_id r) bid uid now s))"
    if "y' \<in> set (BOOKS_TABLE (after_return (brw_id r) bid uid now s))" for y'
  proof -
    from that obtain y where y: "y \<in> set (BOOKS_TABLE s)"
      and y': "y' = (if book_id y = bid then y\<lparr>availableCopies := availableCopies y + 1, book_updatedAt := now\<rparr> else y)"
      by (auto simp: after_return_def)
    have old: "availableCopies y = totalCopies y - int (active_of_book (book_id y) s)"
      using inv y by (simp add: book_invariant_def list_all_iff)
    have cnt: "active_of_book (book_id y) (after_return (brw_id r) bid uid now s)
                 + (if bid = book_id y then 1 else 0) = active_of_book (book_id y) s"
      using active_after_return(1)[OF keys r(1,2), of "book_id y" bid uid now] r(3) by simp
    show ?thesis using y' old cnt by (auto split: if_splits)
  qed
  then show ?thesis by (simp add: book_invariant_def list_all_iff)
qed

lemma user_invariant_after_return:
  assumes inv: "user_invariant s" and keys: "unique_record_ids s"
    and r: "r \<in> set (BORROWING_TABLE s)" "status r = Active" "userId r = uid"
  shows "user_invariant (after_return (brw_id r) bid uid now s)"
proof -
  have "currentBorrowedCount y' = int (active_of_user (user_id y') (after_return (brw_id r) bid uid now s))
        \<and> currentBorrowedCount y' \<le> borrowingLimit y'"
    if "y' \<in> set (USERS_TABLE (after_return (brw_id r) bid uid now s))" for y'
  proof -
    from that obtain y where y: "y \<in> set (USERS_TABLE s)"
      and y': "y' = (if user_id y = uid then y\<lparr>currentBorrowedCount := currentBorrowedCount y - 1, user_updatedAt := now\<rparr> else y)"
      by (auto simp: after_return_def)
    have old: "currentBorrowedCount y = int (active_of_user (user_id y) s)"
      "currentBorrowedCount y \<le> borrowingLimit y"
      using inv y unfolding user_invariant_def list_all_iff by blast+
    have cnt: "active_of_user (user_id y) (after_return (brw_id r) bid uid now s)
                 + (if uid = user_id y then 1 else 0) = active_of_user (user_id y) s"
      using active_after_return(2)[OF keys r(1,2), of "user_id y" bid uid now] r(3) by simp
    show ?thesis using y' old cnt by (auto split: if_splits)
  qed
  then show ?thesis unfolding user_invariant_def list_all_iff by blast
qed


lemma new_borrowingRecord_simps:
  "brw_id (new_borrowingRecord bid uid d bk now hex) = generateId ''brw'' hex"
  "bookId (new_borrowingRecord bid uid d bk now hex) = bid"
  "userId (new_borrowingRecord bid uid d bk now hex) = uid"
  "status (new_borrowingRecord bid uid d bk now hex) = Active"
  by (simp_all add: new_borrowingRecord_def)

lemma borrowBook_preserves:
  assumes keys: "primary_keys s" and bi: "book_invariant s" and ui: "user_invariant s"
    and fresh: "generateId ''brw'' hex \<notin> set (map brw_id (BORROWING_TABLE s))"
  shows "primary_keys (snd (borrowBook env now hex ev s))
         \<and> book_invariant (snd (borrowBook env now hex ev s))
         \<and> user_invariant (snd (borrowBook env now hex ev s))"
proof (cases "snd (borrowBook env now hex ev s) = s")
  case True
  then show ?thesis using keys bi ui by simp
next
  case False
  then obtain bid uid d bk usr where
    usr: "get_item user_id (USERS_TABLE s) uid = Some usr"
         "currentBorrowedCount usr < borrowingLimit usr"
    and s': "snd (borrowBook env now hex ev s)
               = after_borrow bid uid (new_borrowingRecord bid uid d bk now hex) now s"
    by (rule borrowBook_cases)
  let ?r = "new_borrowingRecord bid uid d bk now hex"
  have fr: "brw_id ?r \<notin> set (map brw_id (BORROWING_TABLE s))"
    using fresh by (simp add: new_borrowingRecord_simps)
  show ?thesis
    unfolding s'
    using primary_keys_after_borrow[OF keys fr]
      book_invariant_after_borrow[OF bi fr new_borrowingRecord_simps(2,4)]
      user_invariant_after_borrow[OF ui keys fr new_borrowingRecord_simps(3,4) usr]
    by simp
qed

lemma returnBook_preserves:
  assumes keys: "primary_keys s" and bi: "book_invariant s" and ui: "user_invariant s"
  shows "primary_keys (snd (returnBook env now ev s))
         \<and> book_invariant (snd (returnBook env now ev s))
         \<and> user_invariant (snd (returnBook env now ev s))"
proof (cases "snd (returnBook env now ev s) = s")
  case True
  then show ?thesis using keys bi ui by simp
next
  case False
  then obtain bid uid r rs where
    found: "find_active bid uid s = r # rs"
    and s': "snd (returnBook env now ev s) = after_return (brw_id r) bid uid now s"
    by (rule returnBook_cases)
  have r: "r \<in> set (BORROWING_TABLE s)" "status r = Active" "bookId r = bid" "userId r = uid"
    using find_active_member[OF found] by simp_all
  have uniq: "unique_record_ids s" using keys by (simp add: primary_keys_def)
  show ?thesis
    unfolding s'
    using primary_keys_after_return[OF keys]
      book_invariant_after_return[OF bi uniq r(1,2,3)]
      user_invariant_after_return[OF ui uniq r(1,2,4)]
    by simp
qed

lemma perform_preserves:
  assumes "primary_keys s" and "book_invariant s" and "user_invariant s" and "fresh_id operation s"
  shows "primary_keys (snd (perform env operation s))
         \<and> book_invariant (snd (perform env operation s))
         \<and> user_invariant (snd (perform env operation s))"
proof (cases operation)
  case (Borrow now hex ev)
  then show ?thesis using assms borrowBook_preserves[of s hex env now ev] by simp
next
  case (Return now ev)
  then show ?thesis using assms returnBook_preserves[of s env now ev] by simp
qed

lemma perform_all_preserves:
  "primary_keys s \<Longrightarrow> book_invariant s \<Longrightarrow> user_invariant s \<Longrightarrow> fresh_ids env ops s \<Longrightarrow>
     primary_keys (perform_all env ops s)
     \<and> book_invariant (perform_all env ops s) \<and> user_invariant (perform_all env ops s)"
proof (induction ops arbitrary: s)
  case Nil
  then show ?case by simp
next
  case (Cons operation ops)
  from Cons.prems have step: "primary_keys (snd (perform env operation s))
         \<and> book_invariant (snd (perform env operation s))
         \<and> user_invariant (snd (perform env operation s))"
    using perform_preserves[of s operation env] by simp
  from Cons.prems have "fresh_ids env ops (snd (perform env operation s))" by simp
  with step Cons.IH[of "snd (perform env operation s)"] show ?case by simp
qed

lemma scenario_consistent:
  "primary_keys scenario_store" "book_invariant scenario_store" "user_invariant scenario_store"
  by (simp_all add: primary_keys_def unique_record_ids_def book_invariant_def user_invariant_def
      active_of_book_def active_of_user_def example_defs)

lemma scenario_borrow_return:
  "perform_all None
     [Borrow 1000 ''a1b2c3'' (request ''bk_000001'' ''usr_000001'' None),
      Return 3000 (request ''bk_000001'' ''usr_000001'' None)] scenario_store
   = \<lparr>BOOKS_TABLE = [book_000001\<lparr>book_updatedAt := 3000\<rparr>],
      USERS_TABLE = [user_000001\<lparr>user_updatedAt := 3000\<rparr>],
      BORROWING_TABLE =
        [record_a1b2c3\<lparr>status := Returned, returnedAt := Some 3000, brw_updatedAt := Some 3000\<rparr>]\<rparr>"
  "fresh_ids None
     [Borrow 1000 ''a1b2c3'' (request ''bk_000001'' ''usr_000001'' None),
      Return 3000 (request ''bk_000001'' ''usr_000001'' None)] scenario_store"
  by (simp_all add: borrowBook_snd returnBook_snd request_valid duration_or_default_def
      after_borrow_def after_return_def find_active_def query_UserIndex_def
      get_item_def put_item_def new_borrowingRecord_def generateId_def setDate_plus_def
      ms_per_day_def example_defs)

text \<open>
  C1, as amended. Operations run one after the other, each to its end, from a store in
  which every book has \<open>availableCopies = totalCopies - (number of its active records)\<close>
  and every user has \<open>currentBorrowedCount = (number of the user's active records)\<close>,
  at most \<open>borrowingLimit\<close>. If the primary keys are unique and the id generated for
  each borrow is not the id of a record already in the table, both predicates hold
  after every operation of the sequence, successful or not.
\<close>

theorem invariants_preserved:
  assumes "primary_keys s" and "book_invariant s" and "user_invariant s"
    and "fresh_ids env ops s"
  shows "book_invariant (perform_all env ops s) \<and> user_invariant (perform_all env ops s)"
  using perform_all_preserves[OF assms] by simp

theorem invariants_preserved_witness:
  "book_invariant
     \<lparr>BOOKS_TABLE = [book_000001\<lparr>book_updatedAt := 3000\<rparr>],
      USERS_TABLE = [user_000001\<lparr>user_updatedAt := 3000\<rparr>],
      BORROWING_TABLE =
        [record_a1b2c3\<lparr>status := Returned, returnedAt := Some 3000, brw_updatedAt := Some 3000\<rparr>]\<rparr>
   \<and> user_invariant
     \<lparr>BOOKS_TABLE = [book_000001\<lparr>book_updatedAt := 3000\<rparr>],
      USERS_TABLE = [user_000001\<lparr>user_updatedAt := 3000\<rparr>],
      BORROWING_TABLE =
        [record_a1b2c3\<lparr>status := Returned, returnedAt := Some 3000, brw_updatedAt := Some 3000\<rparr>]\<rparr>"
  using invariants_preserved[OF scenario_consistent scenario_borrow_return(2)]
  by (simp only: scenario_borrow_return(1))

text \<open>
  C1 as the claim states it (every successful borrow preserves both predicates) fails
  when the generated id is already in use: \<open>generateId\<close> draws three random bytes and
  the \<open>Put\<close> carries no condition, so the new record replaces the stored one. The
  first book then counts one copy out with no active record, and the user's counter
  is 2 with one active record.
\<close>

theorem invariants_preserved_counterexample:
  "primary_keys collision_store \<and> book_invariant collision_store \<and> user_invariant collision_store
   \<and> statusCode (fst (borrowBook None 1500 ''a1b2c3'' (request ''bk_000002'' ''usr_000001'' None)
        collision_store)) = 200
   \<and> \<not> book_invariant (snd (borrowBook None 1500 ''a1b2c3'' (request ''bk_000002'' ''usr_000001'' None)
        collision_store))
   \<and> \<not> user_invariant (snd (borrowBook None 1500 ''a1b2c3'' (request ''bk_000002'' ''usr_000001'' None)
        collision_store))"
proof -
  have before: "primary_keys collision_store" "book_invariant collision_store"
    "user_invariant collision_store"
    by (simp_all add: primary_keys_def unique_record_ids_def book_invariant_def user_invariant_def
        active_of_book_def active_of_user_def collision_store_def example_defs)
  have run: "borrowBook None 1500 ''a1b2c3'' (request ''bk_000002'' ''usr_000001'' None) collision_store
     = (borrow_response (record_c3d4e5\<lparr>brw_id := ''brw_a1b2c3''\<rparr>),
        \<lparr>BOOKS_TABLE = [book_000001\<lparr>availableCopies := 0\<rparr>,
                        book_000002\<lparr>availableCopies := 0, book_updatedAt := 1500\<rparr>],
         USERS_TABLE = [user_000001\<lparr>currentBorrowedCount := 2, user_updatedAt := 1500\<rparr>],
         BORROWING_TABLE = [record_c3d4e5\<lparr>brw_id := ''brw_a1b2c3''\<rparr>]\<rparr>)"
    by (simp add: borrowBook_def request_valid2 duration_or_default_def transactWrite_borrow
        get_item_def put_item_def new_borrowingRecord_def generateId_def setDate_plus_def
        ms_per_day_def Let_def collision_store_def example_defs)
  have after: "\<not> book_invariant
       \<lparr>BOOKS_TABLE = [book_000001\<lparr>availableCopies := 0\<rparr>,
                        book_000002\<lparr>availableCopies := 0, book_updatedAt := 1500\<rparr>],
         USERS_TABLE = [user_000001\<lparr>currentBorrowedCount := 2, user_updatedAt := 1500\<rparr>],
         BORROWING_TABLE = [record_c3d4e5\<lparr>brw_id := ''brw_a1b2c3''\<rparr>]\<rparr>"
     "\<not> user_invariant
       \<lparr>BOOKS_TABLE = [book_000001\<lparr>availableCopies := 0\<rparr>,
                        book_000002\<lparr>availableCopies := 0, book_updatedAt := 1500\<rparr>],
         USERS_TABLE = [user_000001\<lparr>currentBorrowedCount := 2, user_updatedAt := 1500\<rparr>],
         BORROWING_TABLE = [record_c3d4e5\<lparr>brw_id := ''brw_a1b2c3''\<rparr>]\<rparr>"
    by (simp_all add: book_invariant_def user_invariant_def active_of_book_def active_of_user_def
        example_defs)
  show ?thesis using before after by (simp add: run statusCode_simps)
qed

section \<open>Requests in flight: available copies never go negative\<close>









section \<open>Two borrows racing for the last copy\<close>




















section \<open>Two returns of one record\<close>

lemma two_books_found:
  "find_active ''bk_000001'' ''usr_000001'' two_books_store = [record_a1b2c3]"
  by (simp add: find_active_def query_UserIndex_def example_defs)

lemma two_books_consistent:
  "primary_keys two_books_store" "book_invariant two_books_store" "user_invariant two_books_store"
  by (simp_all add: primary_keys_def unique_record_ids_def book_invariant_def user_invariant_def
      active_of_book_def active_of_user_def example_defs)

lemma double_return_writes:
  "transactWrite (return_items ''brw_a1b2c3'' ''bk_000001'' ''usr_000001'' 3000) two_books_store
     = Some (after_return ''brw_a1b2c3'' ''bk_000001'' ''usr_000001'' 3000 two_books_store)"
  "transactWrite (return_items ''brw_a1b2c3'' ''bk_000001'' ''usr_000001'' 3001)
       (after_return ''brw_a1b2c3'' ''bk_000001'' ''usr_000001'' 3000 two_books_store)
     = Some after_double_return"
  by (simp_all add: transactWrite_return after_return_def get_item_def example_defs)

lemma two_books_store_reached:
  "perform_all None
     [Borrow 1000 ''a1b2c3'' (request ''bk_000001'' ''usr_000001'' None),
      Borrow 1500 ''c3d4e5'' (request ''bk_000002'' ''usr_000001'' None)]
     \<lparr>BOOKS_TABLE = [book_000001, book_000002], USERS_TABLE = [user_000001], BORROWING_TABLE = []\<rparr>
   = two_books_store"
  by (simp add: borrowBook_snd request_valid request_valid2 duration_or_default_def
      after_borrow_def get_item_def put_item_def new_borrowingRecord_def generateId_def
      setDate_plus_def ms_per_day_def example_defs)

text \<open>
  C3. The claim says that of two returns against the same active record exactly one
  succeeds, that \<open>availableCopies\<close> is incremented once, and that the write asserts
  that the record was active. The record update of \<open>returnBook\<close> has no condition;
  the only condition of the transaction is \<open>currentBorrowedCount > 0\<close> on the user.
  For a user holding two books, two returns of the first book that both query before
  either writes are both answered 200: the book, of which one copy exists, ends with
  \<open>availableCopies = 2\<close>, and the user's counter is 0 while the second book is still
  out. The store before satisfies the invariants of the counters, the store after
  does not.
\<close>

theorem double_return_both_succeed:
  "run None [0, 1, 0, 1]
     ([Return_proc 3000 (request ''bk_000001'' ''usr_000001'' None) Return_start,
       Return_proc 3001 (request ''bk_000001'' ''usr_000001'' None) Return_start],
      two_books_store)
   = ([Return_proc 3000 (request ''bk_000001'' ''usr_000001'' None)
         (Return_done (return_response record_a1b2c3 3000)),
       Return_proc 3001 (request ''bk_000001'' ''usr_000001'' None)
         (Return_done (return_response record_a1b2c3 3001))],
      after_double_return)
   \<and> statusCode (return_response record_a1b2c3 3000) = 200
   \<and> statusCode (return_response record_a1b2c3 3001) = 200
   \<and> map availableCopies (BOOKS_TABLE two_books_store) = [0, 0]
   \<and> map availableCopies (BOOKS_TABLE after_double_return) = [2, 0]
   \<and> map totalCopies (BOOKS_TABLE after_double_return) = [1, 1]
   \<and> book_invariant two_books_store \<and> user_invariant two_books_store
   \<and> \<not> book_invariant after_double_return \<and> \<not> user_invariant after_double_return"
proof -
  have id: "brw_id record_a1b2c3 = ''brw_a1b2c3''" by (simp add: record_a1b2c3_def)
  have run: "run None [0, 1, 0, 1]
     ([Return_proc 3000 (request ''bk_000001'' ''usr_000001'' None) Return_start,
       Return_proc 3001 (request ''bk_000001'' ''usr_000001'' None) Return_start],
      two_books_store)
   = ([Return_proc 3000 (request ''bk_000001'' ''usr_000001'' None)
         (Return_done (return_response record_a1b2c3 3000)),
       Return_proc 3001 (request ''bk_000001'' ''usr_000001'' None)
         (Return_done (return_response record_a1b2c3 3001))],
      after_double_return)"
    by (simp add: request_valid two_books_found id double_return_writes)
  have counts: "map availableCopies (BOOKS_TABLE two_books_store) = [0, 0]"
    "map availableCopies (BOOKS_TABLE after_double_return) = [2, 0]"
    "map totalCopies (BOOKS_TABLE after_double_return) = [1, 1]"
    by (simp_all add: example_defs)
  have broken: "\<not> book_invariant after_double_return" "\<not> user_invariant after_double_return"
    by (simp_all add: book_invariant_def user_invariant_def active_of_book_def active_of_user_def
        example_defs)
  show ?thesis using run counts broken two_books_consistent(2,3) by (simp add: statusCode_simps)
qed

section \<open>Interleaved borrows of one user\<close>

text \<open>
  The user update of the borrow transaction has no condition. Two borrows of a user
  one below the limit, for two different books, that both read the user before either
  writes, are both answered 200 and leave \<open>currentBorrowedCount\<close> above
  \<open>borrowingLimit\<close>. This is why the preservation of the user's bound is stated for
  operations that run one after the other.
\<close>

lemma limit_exceeded_by_interleaving:
  "primary_keys limit_one_store \<and> book_invariant limit_one_store \<and> user_invariant limit_one_store
   \<and> run None [0, 1, 0, 1, 0, 1]
     ([Borrow_proc 1000 ''a1b2c3'' (request ''bk_000001'' ''usr_000001'' None) Borrow_start,
       Borrow_proc 1500 ''c3d4e5'' (request ''bk_000002'' ''usr_000001'' None) Borrow_start],
      limit_one_store)
   = ([Borrow_proc 1000 ''a1b2c3'' (request ''bk_000001'' ''usr_000001'' None)
         (Borrow_done (borrow_response record_a1b2c3)),
       Borrow_proc 1500 ''c3d4e5'' (request ''bk_000002'' ''usr_000001'' None)
         (Borrow_done (borrow_response record_c3d4e5))],
      two_books_store\<lparr>USERS_TABLE :=
        [user_000001\<lparr>borrowingLimit := 1, currentBorrowedCount := 2, user_updatedAt := 1500\<rparr>]\<rparr>)
   \<and> \<not> user_invariant (two_books_store\<lparr>USERS_TABLE :=
        [user_000001\<lparr>borrowingLimit := 1, currentBorrowedCount := 2, user_updatedAt := 1500\<rparr>]\<rparr>)"
proof -
  have before: "primary_keys limit_one_store" "book_invariant limit_one_store"
    "user_invariant limit_one_store"
    by (simp_all add: primary_keys_def unique_record_ids_def book_invariant_def user_invariant_def
        active_of_book_def active_of_user_def limit_one_store_def example_defs)
  have run: "run None [0, 1, 0, 1, 0, 1]
     ([Borrow_proc 1000 ''a1b2c3'' (request ''bk_000001'' ''usr_000001'' None) Borrow_start,
       Borrow_proc 1500 ''c3d4e5'' (request ''bk_000002'' ''usr_000001'' None) Borrow_start],
      limit_one_store)
   = ([Borrow_proc 1000 ''a1b2c3'' (request ''bk_000001'' ''usr_000001'' None)
         (Borrow_done (borrow_response record_a1b2c3)),
       Borrow_proc 1500 ''c3d4e5'' (request ''bk_000002'' ''usr_000001'' None)
         (Borrow_done (borrow_response record_c3d4e5))],
      two_books_store\<lparr>USERS_TABLE :=
        [user_000001\<lparr>borrowingLimit := 1, currentBorrowedCount := 2, user_updatedAt := 1500\<rparr>]\<rparr>)"
    by (simp add: request_valid request_valid2 duration_or_default_def transactWrite_borrow
        get_item_def put_item_def new_borrowingRecord_def generateId_def setDate_plus_def
        ms_per_day_def Let_def limit_one_store_def example_defs)
  have after: "\<not> user_invariant (two_books_store\<lparr>USERS_TABLE :=
        [user_000001\<lparr>borrowingLimit := 1, currentBorrowedCount := 2, user_updatedAt := 1500\<rparr>]\<rparr>)"
    by (simp add: user_invariant_def active_of_user_def example_defs)
  show ?thesis using before run after by simp
qed

end
